theory Spec2Isabelle
  imports
    Main
    "HOL-Library.Char_ord"
    "HOL-Library.List_Lexorder"
    "HOL-Library.Option_ord"
    "HOL-Library.AList"
    "HOL-Library.Multiset"
    "HOL-Library.Sublist"
begin

section \<open>The ticket store\<close>

text \<open>
  The table \<^verbatim>\<open>tickets\<close> created by \<^verbatim>\<open>create_database\<close> in
  \<^verbatim>\<open>scripts/setup_db.py\<close>: an integer key and seven text columns, of which only
  \<^verbatim>\<open>descripcion\<close> may hold NULL. A Python \<^verbatim>\<open>str\<close> and an SQLite TEXT value are
  modelled as the list of their code points, for code points below 256 (the 8-bit
  \<^typ>\<open>char\<close>); NULL and Python's \<^verbatim>\<open>None\<close> are \<^term>\<open>None\<close>. The table is the list
  of its rows in rowid order.
\<close>

record ticket =
  ticket_id :: int
  cliente :: string
  asunto :: string
  descripcion :: "string option"
  estado :: string
  prioridad :: string
  fecha_creacion :: string
  fecha_actualizacion :: string

text \<open>
  What is found at \<^verbatim>\<open>DB_PATH\<close>: nothing, a file that holds no table
  \<^verbatim>\<open>tickets\<close> (an empty file is such a database for \<^verbatim>\<open>sqlite3.connect\<close>), or the
  seeded table.
\<close>

datatype db_state = Absent | No_table | Table "ticket list"

datatype error =
    FileNotFoundError string
  | ValueError string
  | OperationalError string

subsection \<open>The statements the server issues\<close>

text \<open>
  A WHERE clause. \<open>Always\<close> is \<^verbatim>\<open>1=1\<close>, \<open>Equals c v\<close> is \<^verbatim>\<open>c = ?\<close> and
  \<open>Like c p\<close> is \<^verbatim>\<open>c LIKE ?\<close> with the parameter bound; the column is kept as the
  name the Python code writes into the statement text.
\<close>

datatype condition =
    Always
  | Equals string string
  | Like string string
  | Cond_and condition condition
  | Cond_or condition condition

text \<open>
  \<^item> \<open>Select_tickets c n\<close>:
    \<^verbatim>\<open>SELECT * FROM tickets WHERE c ORDER BY fecha_creacion DESC LIMIT n\<close>
  \<^item> \<open>Select_count c\<close>: \<^verbatim>\<open>SELECT COUNT(*) FROM tickets [WHERE c]\<close>
  \<^item> \<open>Select_groups g n\<close>:
    \<^verbatim>\<open>SELECT g, COUNT(*) as cantidad FROM tickets GROUP BY g ORDER BY cantidad DESC [LIMIT n]\<close>
\<close>

datatype statement =
    Select_tickets condition int
  | Select_count "condition option"
  | Select_groups string "int option"

text \<open>
  The part of the world an operation can see or change: the store behind
  \<^verbatim>\<open>DB_PATH\<close>, how many connections have been opened and closed so far, and the
  statements executed so far. A connection is left open by an operation when \<open>opened\<close>
  has grown by more than \<open>closed\<close>.
\<close>

record world =
  DB_PATH :: string
  db :: db_state
  opened :: nat
  closed :: nat
  executed :: "statement list"

section \<open>SQLite's evaluation of the statements\<close>

text \<open>
  Only what the five statements of the server need: conditions on TEXT columns, counting,
  grouping, ordering and LIMIT. The engine's resource limits (such as the longest LIKE
  pattern it accepts) and I/O failures other than a missing table are left out.
\<close>

definition text_columns :: "string list" where
  "text_columns =
     [''cliente'', ''asunto'', ''descripcion'', ''estado'', ''prioridad'',
      ''fecha_creacion'', ''fecha_actualizacion'']"

text \<open>The value of a TEXT column of a row, \<^term>\<open>None\<close> for NULL.\<close>

definition text_value :: "string \<Rightarrow> ticket \<Rightarrow> string option" where
  "text_value c t =
     (if c = ''cliente'' then Some (cliente t)
      else if c = ''asunto'' then Some (asunto t)
      else if c = ''descripcion'' then descripcion t
      else if c = ''estado'' then Some (estado t)
      else if c = ''prioridad'' then Some (prioridad t)
      else if c = ''fecha_creacion'' then Some (fecha_creacion t)
      else if c = ''fecha_actualizacion'' then Some (fecha_actualizacion t)
      else None)"

text \<open>
  LIKE folds the case of the ASCII letters only, \<^verbatim>\<open>%\<close> stands for any run of
  characters, \<^verbatim>\<open>_\<close> for exactly one, and there is no escape character.
\<close>

definition like_fold :: "char \<Rightarrow> char" where
  "like_fold c =
     (let n = (of_char c :: nat) in if 65 \<le> n \<and> n \<le> 90 then char_of (n + 32) else c)"

fun like :: "string \<Rightarrow> string \<Rightarrow> bool" where
  "like [] s = (s = [])"
| "like (p # ps) [] = (p = CHR ''%'' \<and> like ps [])"
| "like (p # ps) (c # cs) =
     (if p = CHR ''%'' then like ps (c # cs) \<or> like (p # ps) cs
      else if p = CHR ''_'' then like ps cs
      else like_fold p = like_fold c \<and> like ps cs)"

text \<open>Three-valued logic: \<^term>\<open>None\<close> is SQL's NULL (unknown).\<close>

fun holds :: "condition \<Rightarrow> ticket \<Rightarrow> bool option" where
  "holds Always t = Some True"
| "holds (Equals c v) t = map_option (\<lambda>s. s = v) (text_value c t)"
| "holds (Like c p) t = map_option (like p) (text_value c t)"
| "holds (Cond_and a b) t =
     (if holds a t = Some False \<or> holds b t = Some False then Some False
      else if holds a t = None \<or> holds b t = None then None
      else Some True)"
| "holds (Cond_or a b) t =
     (if holds a t = Some True \<or> holds b t = Some True then Some True
      else if holds a t = None \<or> holds b t = None then None
      else Some False)"

fun columns_of :: "condition \<Rightarrow> string list" where
  "columns_of Always = []"
| "columns_of (Equals c v) = [c]"
| "columns_of (Like c p) = [c]"
| "columns_of (Cond_and a b) = columns_of a @ columns_of b"
| "columns_of (Cond_or a b) = columns_of a @ columns_of b"

definition unknown_columns :: "string list \<Rightarrow> string list" where
  "unknown_columns cs = filter (\<lambda>c. c \<notin> set text_columns) cs"

definition no_such_column :: "string \<Rightarrow> error" where
  "no_such_column c = OperationalError (''no such column: '' @ c)"

text \<open>WHERE keeps the rows on which the condition is true (not false, not NULL).\<close>

definition where_rows :: "condition \<Rightarrow> ticket list \<Rightarrow> ticket list" where
  "where_rows c ts = filter (\<lambda>t. holds c t = Some True) ts"

text \<open>
  \<^verbatim>\<open>ORDER BY fecha_creacion DESC\<close>: TEXT values compare as their code point
  sequences. SQL leaves the order of rows with equal keys open; the model keeps them in
  rowid order, as SQLite's sorter does.
\<close>

definition order_by_fecha_creacion_desc :: "ticket list \<Rightarrow> ticket list" where
  "order_by_fecha_creacion_desc ts = rev (sort_key fecha_creacion (rev ts))"

text \<open>\<^verbatim>\<open>LIMIT n\<close>; a negative \<open>n\<close> means no limit in SQLite.\<close>

definition limit_rows :: "int \<Rightarrow> 'a list \<Rightarrow> 'a list" where
  "limit_rows n rs = (if n < 0 then rs else take (nat n) rs)"

definition run_select_tickets :: "condition \<Rightarrow> int \<Rightarrow> ticket list \<Rightarrow> error + ticket list" where
  "run_select_tickets c n ts =
     (case unknown_columns (columns_of c) of
        u # _ \<Rightarrow> Inl (no_such_column u)
      | [] \<Rightarrow> Inr (limit_rows n (order_by_fecha_creacion_desc (where_rows c ts))))"

definition run_select_count :: "condition option \<Rightarrow> ticket list \<Rightarrow> error + int" where
  "run_select_count co ts =
     (case co of
        None \<Rightarrow> Inr (int (length ts))
      | Some c \<Rightarrow>
          (case unknown_columns (columns_of c) of
             u # _ \<Rightarrow> Inl (no_such_column u)
           | [] \<Rightarrow> Inr (int (length (where_rows c ts)))))"

text \<open>
  \<^verbatim>\<open>GROUP BY g\<close> makes one row per distinct value of the column, with the number
  of rows holding it; the groups come out in ascending order of the value (NULL first).
  \<^verbatim>\<open>ORDER BY cantidad DESC\<close> then sorts by the count; groups with equal counts
  stay in that order (SQL leaves their order open).
\<close>

definition group_count :: "string \<Rightarrow> ticket list \<Rightarrow> (string option \<times> int) list" where
  "group_count g ts =
     map (\<lambda>k. (k, int (length (filter (\<lambda>t. text_value g t = k) ts))))
         (sort (remdups (map (text_value g) ts)))"

definition order_by_cantidad_desc :: "(string option \<times> int) list \<Rightarrow> (string option \<times> int) list" where
  "order_by_cantidad_desc rows = rev (sort_key snd (rev rows))"

definition run_select_groups ::
  "string \<Rightarrow> int option \<Rightarrow> ticket list \<Rightarrow> error + (string option \<times> int) list" where
  "run_select_groups g lim ts =
     (case unknown_columns [g] of
        u # _ \<Rightarrow> Inl (no_such_column u)
      | [] \<Rightarrow>
          (let rows = order_by_cantidad_desc (group_count g ts)
           in Inr (case lim of None \<Rightarrow> rows | Some n \<Rightarrow> limit_rows n rows)))"

section \<open>The server: \<^verbatim>\<open>src/mcp_server.py\<close>\<close>

subsection \<open>Connections and cursors\<close>

definition apostrophe :: string where
  "apostrophe = [CHR 0x27]"

text \<open>
  \<^verbatim>\<open>get_db_connection\<close>: raises when nothing exists at \<^verbatim>\<open>DB_PATH\<close>, otherwise
  opens a connection (\<^verbatim>\<open>sqlite3.connect\<close> does not read the file yet).
\<close>

definition not_found :: "string \<Rightarrow> error" where
  "not_found path =
     FileNotFoundError
       (''Base de datos no encontrada en '' @ path @ ''. '' @
        ''Ejecuta '' @ apostrophe @ ''poetry run python scripts/setup_db.py'' @
        apostrophe @ '' primero.'')"

definition get_db_connection :: "world \<Rightarrow> (error + unit) \<times> world" where
  "get_db_connection w =
     (if db w = Absent then (Inl (not_found (DB_PATH w)), w)
      else (Inr (), w\<lparr>opened := opened w + 1\<rparr>))"

text \<open>\<^verbatim>\<open>conn.close()\<close>\<close>

definition conn_close :: "world \<Rightarrow> world" where
  "conn_close w = w\<lparr>closed := closed w + 1\<rparr>"

text \<open>
  \<^verbatim>\<open>cursor.execute\<close>: the statement goes to the store; it raises
  \<^verbatim>\<open>sqlite3.OperationalError\<close> when the file holds no table \<^verbatim>\<open>tickets\<close>, and otherwise
  gives what SQLite computes from the table (the second argument).
\<close>

definition cursor_execute ::
  "statement \<Rightarrow> (ticket list \<Rightarrow> error + 'a) \<Rightarrow> world \<Rightarrow> (error + 'a) \<times> world" where
  "cursor_execute stmt run w =
     (let w' = w\<lparr>executed := executed w @ [stmt]\<rparr>
      in case db w of
           Table ts \<Rightarrow> (run ts, w')
         | _ \<Rightarrow> (Inl (OperationalError ''no such table: tickets''), w'))"

definition execute_select_tickets ::
  "condition \<Rightarrow> int \<Rightarrow> world \<Rightarrow> (error + ticket list) \<times> world" where
  "execute_select_tickets c n = cursor_execute (Select_tickets c n) (run_select_tickets c n)"

definition execute_select_count :: "condition option \<Rightarrow> world \<Rightarrow> (error + int) \<times> world" where
  "execute_select_count co = cursor_execute (Select_count co) (run_select_count co)"

definition execute_select_groups ::
  "string \<Rightarrow> int option \<Rightarrow> world \<Rightarrow> (error + (string option \<times> int) list) \<times> world" where
  "execute_select_groups g lim = cursor_execute (Select_groups g lim) (run_select_groups g lim)"

subsection \<open>Python values\<close>

text \<open>
  \<^verbatim>\<open>str.lower()\<close> on code points below 256: the ASCII capitals and the Latin-1
  capitals (all of \<^verbatim>\<open>0xC0..0xDE\<close> but the multiplication sign) move up by 32.
\<close>

definition lower_char :: "char \<Rightarrow> char" where
  "lower_char c =
     (let n = (of_char c :: nat)
      in if (65 \<le> n \<and> n \<le> 90) \<or> (192 \<le> n \<and> n \<le> 222 \<and> n \<noteq> 215)
         then char_of (n + 32) else c)"

definition lower :: "string \<Rightarrow> string" where
  "lower s = map lower_char s"

datatype pyvalue = PyNone | PyInt int | PyStr string

definition columns :: "string list" where
  "columns =
     [''id'', ''cliente'', ''asunto'', ''descripcion'', ''estado'', ''prioridad'',
      ''fecha_creacion'', ''fecha_actualizacion'']"

definition row_of :: "ticket \<Rightarrow> pyvalue list" where
  "row_of t =
     [PyInt (ticket_id t), PyStr (cliente t), PyStr (asunto t),
      (case descripcion t of None \<Rightarrow> PyNone | Some d \<Rightarrow> PyStr d),
      PyStr (estado t), PyStr (prioridad t),
      PyStr (fecha_creacion t), PyStr (fecha_actualizacion t)]"

text \<open>\<^verbatim>\<open>dict(zip(columns, row))\<close>, a dictionary as the list of its items.\<close>

definition ticket_dict :: "ticket \<Rightarrow> (string \<times> pyvalue) list" where
  "ticket_dict t = zip columns (row_of t)"

text \<open>\<^verbatim>\<open>min(max(1, limite), 100)\<close>\<close>

definition clamp_limite :: "int \<Rightarrow> int" where
  "clamp_limite limite = min (max 1 limite) 100"

subsection \<open>\<^verbatim>\<open>consultar_tickets\<close>\<close>

text \<open>
  Lines 68 to 77: \<^verbatim>\<open>if prioridad:\<close> is false for \<^verbatim>\<open>None\<close> and for the empty
  string. The result is the error to raise or the query so far.
\<close>

definition filtro_prioridad :: "string option \<Rightarrow> condition \<Rightarrow> error + condition" where
  "filtro_prioridad prioridad_arg query =
     (case prioridad_arg of
        None \<Rightarrow> Inr query
      | Some p0 \<Rightarrow>
          if p0 = [] then Inr query
          else
            (let p = lower p0
             in if p \<notin> set [''baja'', ''media'', ''alta'', ''urgente''] then
                  Inl (ValueError
                        (''Prioridad inv'' @ [CHR 0xE1] @ ''lida: '' @ p @ ''. '' @
                         ''Usa: baja, media, alta, urgente''))
                else Inr (Cond_and query (Equals ''prioridad'' p))))"

text \<open>Lines 79 to 88.\<close>

definition filtro_estado :: "string option \<Rightarrow> condition \<Rightarrow> error + condition" where
  "filtro_estado estado_arg query =
     (case estado_arg of
        None \<Rightarrow> Inr query
      | Some e0 \<Rightarrow>
          if e0 = [] then Inr query
          else
            (let e = lower e0
             in if e \<notin> set [''abierto'', ''cerrado''] then
                  Inl (ValueError
                        (''Estado inv'' @ [CHR 0xE1] @ ''lido: '' @ e @ ''. '' @
                         ''Usa: abierto, cerrado''))
                else Inr (Cond_and query (Equals ''estado'' e))))"

text \<open>
  The connection is closed before each \<^verbatim>\<open>raise ValueError\<close> and before
  \<^verbatim>\<open>return\<close>; an exception of \<^verbatim>\<open>cursor.execute\<close> leaves the function at line 95.
\<close>

definition consultar_tickets ::
  "string option \<Rightarrow> string option \<Rightarrow> int \<Rightarrow> world \<Rightarrow>
   (error + (string \<times> pyvalue) list list) \<times> world" where
  "consultar_tickets prioridad_arg estado_arg limite w =
     (case get_db_connection w of
        (Inl err, w1) \<Rightarrow> (Inl err, w1)
      | (Inr conn, w1) \<Rightarrow>
          (case filtro_prioridad prioridad_arg Always of
             Inl err \<Rightarrow> (Inl err, conn_close w1)
           | Inr query1 \<Rightarrow>
               (case filtro_estado estado_arg query1 of
                  Inl err \<Rightarrow> (Inl err, conn_close w1)
                | Inr query2 \<Rightarrow>
                    (case execute_select_tickets query2 (clamp_limite limite) w1 of
                       (Inl err, w2) \<Rightarrow> (Inl err, w2)
                     | (Inr rows, w2) \<Rightarrow> (Inr (map ticket_dict rows), conn_close w2)))))"

subsection \<open>\<^verbatim>\<open>obtener_estadisticas\<close>\<close>

text \<open>
  The result dictionary, with its keys as fields. An item
  \<^verbatim>\<open>{"cliente": row[0], "tickets": row[1]}\<close> of \<^verbatim>\<open>top_5_clientes\<close> is the pair of its
  two values.
\<close>

record metricas =
  tickets_abiertos :: int
  tickets_urgentes :: int
  top_5_clientes :: "(string option \<times> int) list"

record estadisticas =
  total_tickets :: int
  distribucion :: "(string option \<times> int) list"
  metricas_adicionales :: metricas

text \<open>
  Lines 153 to 155: \<^verbatim>\<open>distribucion[row[0]] = row[1]\<close> for each row; the dictionary
  is the list of its items in insertion order.
\<close>

definition build_distribucion :: "(string option \<times> int) list \<Rightarrow> (string option \<times> int) list" where
  "build_distribucion rows = foldl (\<lambda>d row. AList.update (fst row) (snd row) d) [] rows"

definition obtener_estadisticas :: "string \<Rightarrow> world \<Rightarrow> (error + estadisticas) \<times> world" where
  "obtener_estadisticas agrupar_por0 w =
     (case get_db_connection w of
        (Inl err, w1) \<Rightarrow> (Inl err, w1)
      | (Inr conn, w1) \<Rightarrow>
          (let agrupar_por = lower agrupar_por0
           in if agrupar_por \<notin> set [''estado'', ''prioridad'', ''cliente''] then
                (Inl (ValueError
                       (''Criterio inv'' @ [CHR 0xE1] @ ''lido: '' @ agrupar_por @ ''. '' @
                        ''Usa: estado, prioridad, cliente'')), conn_close w1)
              else
                (case execute_select_count None w1 of
                   (Inl err, w2) \<Rightarrow> (Inl err, w2)
                 | (Inr total_tickets_v, w2) \<Rightarrow>
                (case execute_select_groups agrupar_por None w2 of
                   (Inl err, w3) \<Rightarrow> (Inl err, w3)
                 | (Inr rows, w3) \<Rightarrow>
                (case execute_select_count (Some (Equals ''estado'' ''abierto'')) w3 of
                   (Inl err, w4) \<Rightarrow> (Inl err, w4)
                 | (Inr tickets_abiertos_v, w4) \<Rightarrow>
                (case execute_select_count (Some (Equals ''prioridad'' ''urgente'')) w4 of
                   (Inl err, w5) \<Rightarrow> (Inl err, w5)
                 | (Inr tickets_urgentes_v, w5) \<Rightarrow>
                (case execute_select_groups ''cliente'' (Some 5) w5 of
                   (Inl err, w6) \<Rightarrow> (Inl err, w6)
                 | (Inr top_clientes, w6) \<Rightarrow>
                     (Inr \<lparr>total_tickets = total_tickets_v,
                           distribucion = build_distribucion rows,
                           metricas_adicionales =
                             \<lparr>tickets_abiertos = tickets_abiertos_v,
                              tickets_urgentes = tickets_urgentes_v,
                              top_5_clientes = top_clientes\<rparr>\<rparr>,
                      conn_close w6))))))))"

subsection \<open>\<^verbatim>\<open>buscar_tickets_por_texto\<close>\<close>

definition buscar_tickets_por_texto ::
  "string \<Rightarrow> string \<Rightarrow> int \<Rightarrow> world \<Rightarrow> (error + (string \<times> pyvalue) list list) \<times> world" where
  "buscar_tickets_por_texto busqueda campo0 limite w =
     (case get_db_connection w of
        (Inl err, w1) \<Rightarrow> (Inl err, w1)
      | (Inr conn, w1) \<Rightarrow>
          (let campo = lower campo0
           in if campo \<notin> set [''asunto'', ''descripcion'', ''ambos''] then
                (Inl (ValueError
                       (''Campo inv'' @ [CHR 0xE1] @ ''lido: '' @ campo @ ''. '' @
                        ''Usa: asunto, descripcion, ambos'')), conn_close w1)
              else
                (let pattern = ''%'' @ busqueda @ ''%'';
                     query =
                       (if campo = ''ambos''
                        then Cond_or (Like ''asunto'' pattern) (Like ''descripcion'' pattern)
                        else Like campo pattern)
                 in case execute_select_tickets query (clamp_limite limite) w1 of
                      (Inl err, w2) \<Rightarrow> (Inl err, w2)
                    | (Inr rows, w2) \<Rightarrow> (Inr (map ticket_dict rows), conn_close w2))))"

section \<open>Example stores\<close>

text \<open>
  Three rows as \<^verbatim>\<open>generate_tickets\<close> writes them, a store seeded with them, a file
  without the table, and a missing file.
\<close>

definition ticket_1 :: ticket where
  "ticket_1 =
     \<lparr>ticket_id = 1, cliente = ''TechCorp S.A.'',
      asunto = ''Error 500 en endpoint de pagos'',
      descripcion = Some ''URGENTE: Error 500 en endpoint de pagos. Requiere atencion inmediata.'',
      estado = ''abierto'', prioridad = ''urgente'',
      fecha_creacion = ''2025-01-02T10:15:00'',
      fecha_actualizacion = ''2025-01-02T12:15:00''\<rparr>"

definition ticket_2 :: ticket where
  "ticket_2 =
     \<lparr>ticket_id = 2, cliente = ''Innovatech'',
      asunto = ''Certificado SSL expirado'',
      descripcion = None,
      estado = ''cerrado'', prioridad = ''alta'',
      fecha_creacion = ''2025-01-03T08:00:00'',
      fecha_actualizacion = ''2025-01-03T09:00:00''\<rparr>"

definition ticket_3 :: ticket where
  "ticket_3 =
     \<lparr>ticket_id = 3, cliente = ''Innovatech'',
      asunto = ''Error de CORS en frontend'',
      descripcion = Some ''Prioridad Alta: Error de CORS en frontend. Revisar certificado.'',
      estado = ''abierto'', prioridad = ''alta'',
      fecha_creacion = ''2025-01-01T23:59:59'',
      fecha_actualizacion = ''2025-01-02T01:59:59''\<rparr>"

definition seeded_tickets :: "ticket list" where
  "seeded_tickets = [ticket_1, ticket_2, ticket_3]"

definition seeded_world :: world where
  "seeded_world =
     \<lparr>DB_PATH = ''/srv/mcp/soporte.db'', db = Table seeded_tickets,
      opened = 0, closed = 0, executed = []\<rparr>"

definition empty_file_world :: world where
  "empty_file_world =
     \<lparr>DB_PATH = ''/srv/mcp/soporte.db'', db = No_table,
      opened = 0, closed = 0, executed = []\<rparr>"

definition missing_world :: world where
  "missing_world =
     \<lparr>DB_PATH = ''/srv/mcp/soporte.db'', db = Absent,
      opened = 0, closed = 0, executed = []\<rparr>"



section \<open>The specification's literal substring match\<close>



section \<open>Facts about the statements\<close>

lemma unknown_columns_Nil: "set cs \<subseteq> set text_columns \<Longrightarrow> unknown_columns cs = []"
  by (auto simp: unknown_columns_def filter_empty_conv)

lemma mset_order_by_fecha_creacion_desc: "mset (order_by_fecha_creacion_desc ts) = mset ts"
  by (simp add: order_by_fecha_creacion_desc_def)

lemma set_order_by_fecha_creacion_desc: "set (order_by_fecha_creacion_desc ts) = set ts"
  by (simp add: order_by_fecha_creacion_desc_def)



lemma sorted_order_by_fecha_creacion_desc:
  "sorted_wrt (\<lambda>a b. fecha_creacion b \<le> fecha_creacion a) (order_by_fecha_creacion_desc ts)"
proof -
  have "sorted (map fecha_creacion (sort_key fecha_creacion (rev ts)))"
    by (rule sorted_sort_key)
  then have "sorted_wrt (\<lambda>a b. fecha_creacion a \<le> fecha_creacion b) (sort_key fecha_creacion (rev ts))"
    by (simp add: sorted_map)
  then show ?thesis
    by (simp add: order_by_fecha_creacion_desc_def sorted_wrt_rev)
qed


lemma limit_rows_clamp: "limit_rows (clamp_limite n) rs = take (nat (clamp_limite n)) rs"
  by (simp add: limit_rows_def clamp_limite_def)



subsection \<open>What the filters build\<close>

lemma filtro_prioridad_None: "filtro_prioridad None q = Inr q"
  by (simp add: filtro_prioridad_def)

lemma filtro_prioridad_empty: "filtro_prioridad (Some []) q = Inr q"
  by (simp add: filtro_prioridad_def)

lemma filtro_prioridad_valid:
  "s \<noteq> [] \<Longrightarrow> lower s \<in> set [''baja'', ''media'', ''alta'', ''urgente''] \<Longrightarrow>
   filtro_prioridad (Some s) q = Inr (Cond_and q (Equals ''prioridad'' (lower s)))"
  by (simp add: filtro_prioridad_def Let_def)

lemma filtro_prioridad_invalid:
  "s \<noteq> [] \<Longrightarrow> lower s \<notin> set [''baja'', ''media'', ''alta'', ''urgente''] \<Longrightarrow>
   filtro_prioridad (Some s) q =
     Inl (ValueError (''Prioridad inv'' @ [CHR 0xE1] @ ''lida: '' @ lower s @ ''. '' @
                      ''Usa: baja, media, alta, urgente''))"
  by (simp add: filtro_prioridad_def Let_def)

lemma filtro_estado_None: "filtro_estado None q = Inr q"
  by (simp add: filtro_estado_def)

lemma filtro_estado_empty: "filtro_estado (Some []) q = Inr q"
  by (simp add: filtro_estado_def)

lemma filtro_estado_valid:
  "s \<noteq> [] \<Longrightarrow> lower s \<in> set [''abierto'', ''cerrado''] \<Longrightarrow>
   filtro_estado (Some s) q = Inr (Cond_and q (Equals ''estado'' (lower s)))"
  by (simp add: filtro_estado_def Let_def)

lemma filtro_estado_invalid:
  "s \<noteq> [] \<Longrightarrow> lower s \<notin> set [''abierto'', ''cerrado''] \<Longrightarrow>
   filtro_estado (Some s) q =
     Inl (ValueError (''Estado inv'' @ [CHR 0xE1] @ ''lido: '' @ lower s @ ''. '' @
                      ''Usa: abierto, cerrado''))"
  by (simp add: filtro_estado_def Let_def)

lemma lower_Nil_iff: "lower s = [] \<longleftrightarrow> s = []"
  by (simp add: lower_def)

text \<open>The condition the two filters leave behind, when neither raises.\<close>

lemma filtro_prioridad_ok:
  assumes "\<forall>s. p = Some s \<longrightarrow> lower s \<in> set [''baja'', ''media'', ''alta'', ''urgente'']"
  shows "filtro_prioridad p q =
    Inr (case p of None \<Rightarrow> q | Some s \<Rightarrow> Cond_and q (Equals ''prioridad'' (lower s)))"
proof (cases p)
  case None
  then show ?thesis by (simp add: filtro_prioridad_None)
next
  case (Some s)
  with assms have v: "lower s \<in> set [''baja'', ''media'', ''alta'', ''urgente'']" by blast
  then have "lower s \<noteq> []" by auto
  then have "s \<noteq> []" by (simp add: lower_Nil_iff)
  from filtro_prioridad_valid [OF this v] Some show ?thesis by simp
qed

lemma filtro_estado_ok:
  assumes "\<forall>s. e = Some s \<longrightarrow> lower s \<in> set [''abierto'', ''cerrado'']"
  shows "filtro_estado e q =
    Inr (case e of None \<Rightarrow> q | Some s \<Rightarrow> Cond_and q (Equals ''estado'' (lower s)))"
proof (cases e)
  case None
  then show ?thesis by (simp add: filtro_estado_None)
next
  case (Some s)
  with assms have v: "lower s \<in> set [''abierto'', ''cerrado'']" by blast
  then have "lower s \<noteq> []" by auto
  then have "s \<noteq> []" by (simp add: lower_Nil_iff)
  from filtro_estado_valid [OF this v] Some show ?thesis by simp
qed

subsection \<open>The operations on a seeded store\<close>

lemma get_db_connection_Absent:
  "db w = Absent \<Longrightarrow> get_db_connection w = (Inl (not_found (DB_PATH w)), w)"
  by (simp add: get_db_connection_def)

lemma get_db_connection_present:
  "db w \<noteq> Absent \<Longrightarrow> get_db_connection w = (Inr (), w\<lparr>opened := opened w + 1\<rparr>)"
  by (simp add: get_db_connection_def)

lemma execute_select_tickets_Table:
  "db w = Table ts \<Longrightarrow> unknown_columns (columns_of c) = [] \<Longrightarrow>
   execute_select_tickets c n w =
     (Inr (limit_rows n (order_by_fecha_creacion_desc (where_rows c ts))),
      w\<lparr>executed := executed w @ [Select_tickets c n]\<rparr>)"
  by (simp add: execute_select_tickets_def cursor_execute_def run_select_tickets_def)

lemma consultar_tickets_Table:
  assumes "db w = Table ts"
    and "filtro_prioridad p Always = Inr q1"
    and "filtro_estado e q1 = Inr q2"
    and "unknown_columns (columns_of q2) = []"
  shows "consultar_tickets p e limite w =
    (Inr (map ticket_dict
           (take (nat (clamp_limite limite)) (order_by_fecha_creacion_desc (where_rows q2 ts)))),
     w\<lparr>opened := opened w + 1,
       executed := executed w @ [Select_tickets q2 (clamp_limite limite)],
       closed := closed w + 1\<rparr>)"
proof -
  have c: "get_db_connection w = (Inr (), w\<lparr>opened := opened w + 1\<rparr>)"
    using assms(1) by (simp add: get_db_connection_present)
  have x: "execute_select_tickets q2 (clamp_limite limite) (w\<lparr>opened := opened w + 1\<rparr>) =
     (Inr (limit_rows (clamp_limite limite) (order_by_fecha_creacion_desc (where_rows q2 ts))),
      w\<lparr>opened := opened w + 1,
        executed := executed w @ [Select_tickets q2 (clamp_limite limite)]\<rparr>)"
    using assms(1,4) by (simp add: execute_select_tickets_Table)
  show ?thesis
    using x by (simp add: consultar_tickets_def c assms(2,3) conn_close_def limit_rows_clamp)
qed


lemma holds_filtros:
  "holds (case e of None \<Rightarrow> (case p of None \<Rightarrow> Always
                                 | Some s \<Rightarrow> Cond_and Always (Equals ''prioridad'' (lower s)))
          | Some u \<Rightarrow> Cond_and (case p of None \<Rightarrow> Always
                                 | Some s \<Rightarrow> Cond_and Always (Equals ''prioridad'' (lower s)))
                                (Equals ''estado'' (lower u))) t =
   Some ((\<forall>s. p = Some s \<longrightarrow> prioridad t = lower s) \<and> (\<forall>s. e = Some s \<longrightarrow> estado t = lower s))"
  by (cases p; cases e) (simp_all add: text_value_def)

lemma columns_filtros:
  "unknown_columns (columns_of
     (case e of None \<Rightarrow> (case p of None \<Rightarrow> Always
                                 | Some s \<Rightarrow> Cond_and Always (Equals ''prioridad'' (lower s)))
          | Some u \<Rightarrow> Cond_and (case p of None \<Rightarrow> Always
                                 | Some s \<Rightarrow> Cond_and Always (Equals ''prioridad'' (lower s)))
                                (Equals ''estado'' (lower u)))) = []"
  by (cases p; cases e) (simp_all add: unknown_columns_def text_columns_def)

text \<open>\<^verbatim>\<open>consultar_tickets\<close> with filters that pass validation, on a seeded store.\<close>

lemma consultar_tickets_valid:
  assumes "db w = Table ts"
    and "\<forall>s. p = Some s \<longrightarrow> lower s \<in> set [''baja'', ''media'', ''alta'', ''urgente'']"
    and "\<forall>s. e = Some s \<longrightarrow> lower s \<in> set [''abierto'', ''cerrado'']"
  shows "fst (consultar_tickets p e limite w) =
    Inr (map ticket_dict
          (take (nat (clamp_limite limite))
            (order_by_fecha_creacion_desc
              (filter (\<lambda>t. (\<forall>s. p = Some s \<longrightarrow> prioridad t = lower s) \<and>
                            (\<forall>s. e = Some s \<longrightarrow> estado t = lower s)) ts))))"
proof -
  let ?q1 = "case p of None \<Rightarrow> Always
             | Some s \<Rightarrow> Cond_and Always (Equals ''prioridad'' (lower s))"
  let ?q2 = "case e of None \<Rightarrow> ?q1 | Some u \<Rightarrow> Cond_and ?q1 (Equals ''estado'' (lower u))"
  have 1: "filtro_prioridad p Always = Inr ?q1"
    using assms(2) by (rule filtro_prioridad_ok)
  have 2: "filtro_estado e ?q1 = Inr ?q2"
    using assms(3) by (rule filtro_estado_ok)
  have 3: "unknown_columns (columns_of ?q2) = []"
    by (rule columns_filtros)
  have 4: "where_rows ?q2 ts =
      filter (\<lambda>t. (\<forall>s. p = Some s \<longrightarrow> prioridad t = lower s) \<and>
                  (\<forall>s. e = Some s \<longrightarrow> estado t = lower s)) ts"
    unfolding where_rows_def holds_filtros by simp
  show ?thesis
    unfolding consultar_tickets_Table [OF assms(1) 1 2 3] 4 by simp
qed

subsection \<open>Evaluated examples\<close>

lemma lower_examples:
  "lower ''ALTA'' = ''alta''"
  "lower ''Abierto'' = ''abierto''"
  "lower ''abierto'' = ''abierto''"
  "lower ''Cliente'' = ''cliente''"
  "lower ''estado'' = ''estado''"
  "lower ''asunto'' = ''asunto''"
  "lower ''descripcion'' = ''descripcion''"
  "lower ''ambos'' = ''ambos''"
  "lower ''AMBOS'' = ''ambos''"
  "lower ''URGENTISIMO'' = ''urgentisimo''"
  "lower ''Fecha'' = ''fecha''"
  by code_simp+

subsection \<open>\<^verbatim>\<open>obtener_estadisticas\<close> and \<^verbatim>\<open>buscar_tickets_por_texto\<close> case by case\<close>

lemma where_rows_Equals_estado:
  "where_rows (Equals ''estado'' v) ts = filter (\<lambda>t. estado t = v) ts"
  by (simp add: where_rows_def text_value_def)

lemma where_rows_Equals_prioridad:
  "where_rows (Equals ''prioridad'' v) ts = filter (\<lambda>t. prioridad t = v) ts"
  by (simp add: where_rows_def text_value_def)

lemma obtener_estadisticas_Table:
  assumes "db w = Table ts"
    and "lower g \<in> set [''estado'', ''prioridad'', ''cliente'']"
  shows "obtener_estadisticas g w =
    (Inr \<lparr>total_tickets = int (length ts),
          distribucion = build_distribucion (order_by_cantidad_desc (group_count (lower g) ts)),
          metricas_adicionales =
            \<lparr>tickets_abiertos = int (length (filter (\<lambda>t. estado t = ''abierto'') ts)),
             tickets_urgentes = int (length (filter (\<lambda>t. prioridad t = ''urgente'') ts)),
             top_5_clientes = take 5 (order_by_cantidad_desc (group_count ''cliente'' ts))\<rparr>\<rparr>,
     w\<lparr>opened := opened w + 1,
       executed := executed w @
         [Select_count None, Select_groups (lower g) None,
          Select_count (Some (Equals ''estado'' ''abierto'')),
          Select_count (Some (Equals ''prioridad'' ''urgente'')),
          Select_groups ''cliente'' (Some 5)],
       closed := closed w + 1\<rparr>)"
proof -
  have u: "unknown_columns [lower g] = []"
    using assms(2) by (auto simp: unknown_columns_def text_columns_def)
  have c: "get_db_connection w = (Inr (), w\<lparr>opened := opened w + 1\<rparr>)"
    using assms(1) by (simp add: get_db_connection_present)
  show ?thesis
    using assms u
    by (simp add: obtener_estadisticas_def c Let_def execute_select_count_def
        execute_select_groups_def cursor_execute_def run_select_count_def run_select_groups_def
        where_rows_Equals_estado where_rows_Equals_prioridad conn_close_def limit_rows_def
        unknown_columns_def text_columns_def)
qed

lemma obtener_estadisticas_invalid:
  assumes "db w \<noteq> Absent"
    and "lower g \<notin> set [''estado'', ''prioridad'', ''cliente'']"
  shows "obtener_estadisticas g w =
    (Inl (ValueError (''Criterio inv'' @ [CHR 0xE1] @ ''lido: '' @ lower g @ ''. '' @
                      ''Usa: estado, prioridad, cliente'')),
     w\<lparr>opened := opened w + 1, closed := closed w + 1\<rparr>)"
  using assms
  by (simp add: obtener_estadisticas_def get_db_connection_present Let_def conn_close_def)

lemma obtener_estadisticas_No_table:
  assumes "db w = No_table"
    and "lower g \<in> set [''estado'', ''prioridad'', ''cliente'']"
  shows "obtener_estadisticas g w =
    (Inl (OperationalError ''no such table: tickets''),
     w\<lparr>opened := opened w + 1, executed := executed w @ [Select_count None]\<rparr>)"
  using assms
  by (simp add: obtener_estadisticas_def get_db_connection_def Let_def execute_select_count_def
      cursor_execute_def)

lemma obtener_estadisticas_Absent:
  assumes "db w = Absent"
  shows "obtener_estadisticas g w = (Inl (not_found (DB_PATH w)), w)"
  using assms by (simp add: obtener_estadisticas_def get_db_connection_def)

lemma buscar_tickets_por_texto_invalid:
  assumes "db w \<noteq> Absent"
    and "lower campo \<notin> set [''asunto'', ''descripcion'', ''ambos'']"
  shows "buscar_tickets_por_texto b campo limite w =
    (Inl (ValueError (''Campo inv'' @ [CHR 0xE1] @ ''lido: '' @ lower campo @ ''. '' @
                      ''Usa: asunto, descripcion, ambos'')),
     w\<lparr>opened := opened w + 1, closed := closed w + 1\<rparr>)"
  using assms
  by (simp add: buscar_tickets_por_texto_def get_db_connection_present Let_def conn_close_def)

lemma buscar_tickets_por_texto_No_table:
  assumes "db w = No_table"
    and "lower campo \<in> set [''asunto'', ''descripcion'', ''ambos'']"
  shows "\<exists>q. buscar_tickets_por_texto b campo limite w =
    (Inl (OperationalError ''no such table: tickets''),
     w\<lparr>opened := opened w + 1, executed := executed w @ [Select_tickets q (clamp_limite limite)]\<rparr>)"
  using assms
  by (auto simp add: buscar_tickets_por_texto_def get_db_connection_def Let_def
      execute_select_tickets_def cursor_execute_def)

lemma buscar_tickets_por_texto_Absent:
  assumes "db w = Absent"
  shows "buscar_tickets_por_texto b campo limite w = (Inl (not_found (DB_PATH w)), w)"
  using assms by (simp add: buscar_tickets_por_texto_def get_db_connection_def)

lemma consultar_tickets_Absent:
  assumes "db w = Absent"
  shows "consultar_tickets p e limite w = (Inl (not_found (DB_PATH w)), w)"
  using assms by (simp add: consultar_tickets_def get_db_connection_def)




lemma consultar_tickets_prioridad_invalid:
  assumes "db w \<noteq> Absent" and "s \<noteq> []"
    and "lower s \<notin> set [''baja'', ''media'', ''alta'', ''urgente'']"
  shows "consultar_tickets (Some s) e limite w =
    (Inl (ValueError (''Prioridad inv'' @ [CHR 0xE1] @ ''lida: '' @ lower s @ ''. '' @
                      ''Usa: baja, media, alta, urgente'')),
     w\<lparr>opened := opened w + 1, closed := closed w + 1\<rparr>)"
  using assms(1)
  by (simp add: consultar_tickets_def get_db_connection_present
      filtro_prioridad_invalid [OF assms(2,3)] conn_close_def)

lemma consultar_tickets_estado_invalid:
  assumes "db w \<noteq> Absent" and "filtro_prioridad p Always = Inr q1" and "s \<noteq> []"
    and "lower s \<notin> set [''abierto'', ''cerrado'']"
  shows "consultar_tickets p (Some s) limite w =
    (Inl (ValueError (''Estado inv'' @ [CHR 0xE1] @ ''lido: '' @ lower s @ ''. '' @
                      ''Usa: abierto, cerrado'')),
     w\<lparr>opened := opened w + 1, closed := closed w + 1\<rparr>)"
  using assms(1)
  by (simp add: consultar_tickets_def get_db_connection_present assms(2)
      filtro_estado_invalid [OF assms(3,4)] conn_close_def)

lemma consultar_tickets_No_table:
  assumes "db w = No_table" and "filtro_prioridad p Always = Inr q1"
    and "filtro_estado e q1 = Inr q2"
  shows "consultar_tickets p e limite w =
    (Inl (OperationalError ''no such table: tickets''),
     w\<lparr>opened := opened w + 1,
       executed := executed w @ [Select_tickets q2 (clamp_limite limite)]\<rparr>)"
  using assms(1)
  by (simp add: consultar_tickets_def get_db_connection_def assms(2,3)
      execute_select_tickets_def cursor_execute_def)

lemma consultar_tickets_seeded_all:
  "consultar_tickets None None 20 seeded_world =
     (Inr [ticket_dict ticket_2, ticket_dict ticket_1, ticket_dict ticket_3],
      seeded_world\<lparr>opened := 1, executed := [Select_tickets Always 20], closed := 1\<rparr>)"
  by code_simp

lemma filtro_prioridad_passes:
  assumes "\<forall>u. p = Some u \<longrightarrow> u = [] \<or> lower u \<in> set [''baja'', ''media'', ''alta'', ''urgente'']"
  shows "\<exists>q1. filtro_prioridad p q = Inr q1"
proof (cases p)
  case None
  then show ?thesis by (simp add: filtro_prioridad_None)
next
  case (Some u)
  show ?thesis
  proof (cases "u = []")
    case True
    with Some show ?thesis by (simp add: filtro_prioridad_empty)
  next
    case False
    with Some assms have "lower u \<in> set [''baja'', ''media'', ''alta'', ''urgente'']" by blast
    from filtro_prioridad_valid [OF False this] Some show ?thesis by blast
  qed
qed

subsection \<open>Connections opened and closed\<close>

text \<open>
  Each operation either closes the connection it opened (or opens none), or ends in the
  exception of \<^verbatim>\<open>cursor.execute\<close> with one connection more opened than closed.
\<close>

lemma consultar_tickets_connections:
  "(\<exists>m. fst (consultar_tickets p e limite w) = Inl (OperationalError m)
        \<and> opened (snd (consultar_tickets p e limite w)) = opened w + 1
        \<and> closed (snd (consultar_tickets p e limite w)) = closed w)
   \<or> opened (snd (consultar_tickets p e limite w)) + closed w =
       opened w + closed (snd (consultar_tickets p e limite w))"
  by (auto simp: consultar_tickets_def get_db_connection_def conn_close_def Let_def
      execute_select_tickets_def cursor_execute_def run_select_tickets_def no_such_column_def
      split: sum.splits db_state.splits list.splits)

lemma buscar_tickets_por_texto_connections:
  "(\<exists>m. fst (buscar_tickets_por_texto b campo limite w) = Inl (OperationalError m)
        \<and> opened (snd (buscar_tickets_por_texto b campo limite w)) = opened w + 1
        \<and> closed (snd (buscar_tickets_por_texto b campo limite w)) = closed w)
   \<or> opened (snd (buscar_tickets_por_texto b campo limite w)) + closed w =
       opened w + closed (snd (buscar_tickets_por_texto b campo limite w))"
  by (auto simp: buscar_tickets_por_texto_def get_db_connection_def conn_close_def Let_def
      execute_select_tickets_def cursor_execute_def run_select_tickets_def no_such_column_def
      split: sum.splits db_state.splits list.splits)

lemma obtener_estadisticas_connections:
  "(\<exists>m. fst (obtener_estadisticas g w) = Inl (OperationalError m)
        \<and> opened (snd (obtener_estadisticas g w)) = opened w + 1
        \<and> closed (snd (obtener_estadisticas g w)) = closed w)
   \<or> opened (snd (obtener_estadisticas g w)) + closed w =
       opened w + closed (snd (obtener_estadisticas g w))"
proof (cases "lower g \<in> set [''estado'', ''prioridad'', ''cliente'']")
  case valid: True
  show ?thesis
  proof (cases "db w")
    case Absent
    then show ?thesis by (simp add: obtener_estadisticas_Absent)
  next
    case No_table
    from obtener_estadisticas_No_table [OF this valid] show ?thesis by simp
  next
    case (Table ts)
    from obtener_estadisticas_Table [OF this valid] show ?thesis by simp
  qed
next
  case invalid: False
  show ?thesis
  proof (cases "db w = Absent")
    case True
    then show ?thesis by (simp add: obtener_estadisticas_Absent)
  next
    case False
    from obtener_estadisticas_invalid [OF this invalid] show ?thesis by simp
  qed
qed

subsection \<open>Grouped counts\<close>

lemma update_fresh: "k \<notin> fst ` set d \<Longrightarrow> AList.update k v d = d @ [(k, v)]"
  by (induction d) auto

lemma foldl_update_distinct:
  "distinct (map fst (acc @ rows)) \<Longrightarrow>
   foldl (\<lambda>d row. AList.update (fst row) (snd row) d) acc rows = acc @ rows"
proof (induction rows arbitrary: acc)
  case Nil
  then show ?case by simp
next
  case (Cons r rows)
  from Cons.prems have fresh: "fst r \<notin> fst ` set acc" by auto
  from Cons.prems have "distinct (map fst ((acc @ [r]) @ rows))" by simp
  then have "foldl (\<lambda>d row. AList.update (fst row) (snd row) d) (acc @ [r]) rows =
      (acc @ [r]) @ rows"
    by (rule Cons.IH)
  with fresh show ?case by (simp add: update_fresh)
qed

lemma build_distribucion_distinct:
  "distinct (map fst rows) \<Longrightarrow> build_distribucion rows = rows"
  using foldl_update_distinct [of "[]" rows] by (simp add: build_distribucion_def)

lemma map_fst_group_count:
  "map fst (group_count g ts) = sort (remdups (map (text_value g) ts))"
  by (simp add: group_count_def comp_def)

lemma distinct_group_count: "distinct (map fst (group_count g ts))"
  by (simp add: map_fst_group_count)

lemma mset_order_by_cantidad_desc: "mset (order_by_cantidad_desc rows) = mset rows"
  by (simp add: order_by_cantidad_desc_def)

lemma distinct_order_by_cantidad_desc:
  "distinct (map fst (order_by_cantidad_desc rows)) = distinct (map fst rows)"
proof -
  have "mset (map fst (order_by_cantidad_desc rows)) = mset (map fst rows)"
    by (simp add: mset_order_by_cantidad_desc)
  then show ?thesis by (rule mset_eq_imp_distinct_iff)
qed

lemma sum_order_by_cantidad_desc:
  "sum_list (map snd (order_by_cantidad_desc rows)) = sum_list (map snd rows)"
proof -
  have "mset (map snd (order_by_cantidad_desc rows)) = mset (map snd rows)"
    by (simp add: mset_order_by_cantidad_desc)
  then have "sum_mset (mset (map snd (order_by_cantidad_desc rows))) =
      sum_mset (mset (map snd rows))"
    by simp
  then show ?thesis by (simp only: sum_mset_sum_list)
qed

lemma sum_count_by_key:
  "finite A \<Longrightarrow> f ` set ts \<subseteq> A \<Longrightarrow>
   (\<Sum>k\<in>A. int (length (filter (\<lambda>t. f t = k) ts))) = int (length ts)"
proof (induction ts)
  case Nil
  then show ?case by simp
next
  case (Cons t ts)
  from Cons.prems have mem: "f t \<in> A" and sub: "f ` set ts \<subseteq> A" by auto
  have "(\<Sum>k\<in>A. int (length (filter (\<lambda>u. f u = k) (t # ts)))) =
      (\<Sum>k\<in>A. (if f t = k then 1 else 0) + int (length (filter (\<lambda>u. f u = k) ts)))"
    by (rule sum.cong) auto
  also have "\<dots> = (\<Sum>k\<in>A. if f t = k then 1 else 0) +
      (\<Sum>k\<in>A. int (length (filter (\<lambda>u. f u = k) ts)))"
    by (rule sum.distrib)
  also have "(\<Sum>k\<in>A. if f t = k then 1 else 0) = (1::int)"
    using Cons.prems(1) mem by simp
  also have "(\<Sum>k\<in>A. int (length (filter (\<lambda>u. f u = k) ts))) = int (length ts)"
    using Cons.prems(1) sub by (rule Cons.IH)
  finally show ?case by simp
qed

lemma sum_group_count: "sum_list (map snd (group_count g ts)) = int (length ts)"
proof -
  let ?keys = "sort (remdups (map (text_value g) ts))"
  have d: "distinct ?keys" by simp
  have s: "set ?keys = text_value g ` set ts" by simp
  have "sum_list (map snd (group_count g ts)) =
      sum_list (map (\<lambda>k. int (length (filter (\<lambda>t. text_value g t = k) ts))) ?keys)"
    by (simp add: group_count_def comp_def)
  also have "\<dots> = (\<Sum>k\<in>set ?keys. int (length (filter (\<lambda>t. text_value g t = k) ts)))"
    using d by (rule sum_list_distinct_conv_sum_set)
  also have "\<dots> = int (length ts)"
    by (rule sum_count_by_key) (simp_all only: s finite_imageI finite_set subset_refl)
  finally show ?thesis .
qed

lemma distribucion_rows:
  "build_distribucion (order_by_cantidad_desc (group_count g ts)) =
     order_by_cantidad_desc (group_count g ts)"
  by (rule build_distribucion_distinct)
    (simp only: distinct_order_by_cantidad_desc distinct_group_count)

lemma obtener_estadisticas_seeded:
  "fst (obtener_estadisticas ''Cliente'' seeded_world) =
     Inr \<lparr>total_tickets = 3,
          distribucion = [(Some ''Innovatech'', 2), (Some ''TechCorp S.A.'', 1)],
          metricas_adicionales =
            \<lparr>tickets_abiertos = 2, tickets_urgentes = 1,
             top_5_clientes = [(Some ''Innovatech'', 2), (Some ''TechCorp S.A.'', 1)]\<rparr>\<rparr>"
  by code_simp

subsection \<open>LIKE against the literal match\<close>






subsection \<open>How many rows come back\<close>




subsection \<open>Open tickets, counted and listed\<close>







subsection \<open>Searching both columns\<close>










section \<open>The claims\<close>

text \<open>
  C1. On every seeded store and for every priority and status filter that is absent or,
  once lower-cased, one of the allowed values, \<^verbatim>\<open>consultar_tickets\<close> returns rows of the
  table only, each with \<^verbatim>\<open>prioridad\<close> and \<^verbatim>\<open>estado\<close> equal to the lower-cased filter
  given (both, when both are given), in descending order of \<^verbatim>\<open>fecha_creacion\<close>. With no
  filter the result is a prefix of a descending arrangement of the whole table.
\<close>

theorem consultar_tickets_filtered_sorted:
  assumes "db w = Table ts"
    and "\<forall>s. p = Some s \<longrightarrow> lower s \<in> set [''baja'', ''media'', ''alta'', ''urgente'']"
    and "\<forall>s. e = Some s \<longrightarrow> lower s \<in> set [''abierto'', ''cerrado'']"
  shows "\<exists>rs. fst (consultar_tickets p e limite w) = Inr (map ticket_dict rs)
    \<and> set rs \<subseteq> set ts
    \<and> (\<forall>t\<in>set rs. (\<forall>s. p = Some s \<longrightarrow> prioridad t = lower s) \<and>
                    (\<forall>s. e = Some s \<longrightarrow> estado t = lower s))
    \<and> sorted_wrt (\<lambda>a b. fecha_creacion b \<le> fecha_creacion a) rs
    \<and> (p = None \<and> e = None \<longrightarrow>
         (\<exists>full. mset full = mset ts
            \<and> sorted_wrt (\<lambda>a b. fecha_creacion b \<le> fecha_creacion a) full
            \<and> prefix rs full))"
proof -
  let ?P = "\<lambda>t. (\<forall>s. p = Some s \<longrightarrow> prioridad t = lower s) \<and>
                (\<forall>s. e = Some s \<longrightarrow> estado t = lower s)"
  let ?n = "nat (clamp_limite limite)"
  let ?rs = "take ?n (order_by_fecha_creacion_desc (filter ?P ts))"
  have r: "fst (consultar_tickets p e limite w) = Inr (map ticket_dict ?rs)"
    using assms by (rule consultar_tickets_valid)
  have sub: "set ?rs \<subseteq> set (filter ?P ts)"
    using set_take_subset [of ?n "order_by_fecha_creacion_desc (filter ?P ts)"]
    by (simp only: set_order_by_fecha_creacion_desc)
  have a: "set ?rs \<subseteq> set ts"
    using sub by auto
  have b: "\<forall>t\<in>set ?rs. ?P t"
    using sub by auto
  have c: "sorted_wrt (\<lambda>a b. fecha_creacion b \<le> fecha_creacion a) ?rs"
    by (rule sorted_wrt_take) (rule sorted_order_by_fecha_creacion_desc)
  have d: "p = None \<and> e = None \<longrightarrow>
         (\<exists>full. mset full = mset ts
            \<and> sorted_wrt (\<lambda>a b. fecha_creacion b \<le> fecha_creacion a) full
            \<and> prefix ?rs full)"
  proof
    assume "p = None \<and> e = None"
    then have "?rs = take ?n (order_by_fecha_creacion_desc ts)" by simp
    then have "prefix ?rs (order_by_fecha_creacion_desc ts)"
      by (simp only: take_is_prefix)
    then show "\<exists>full. mset full = mset ts
            \<and> sorted_wrt (\<lambda>a b. fecha_creacion b \<le> fecha_creacion a) full
            \<and> prefix ?rs full"
      using mset_order_by_fecha_creacion_desc sorted_order_by_fecha_creacion_desc by blast
  qed
  from r a b c d show ?thesis by blast
qed

theorem consultar_tickets_filtered_sorted_witness:
  "db seeded_world = Table seeded_tickets
   \<and> lower ''ALTA'' \<in> set [''baja'', ''media'', ''alta'', ''urgente'']
   \<and> lower ''Abierto'' \<in> set [''abierto'', ''cerrado'']
   \<and> (\<exists>rs. fst (consultar_tickets (Some ''ALTA'') (Some ''Abierto'') 20 seeded_world) =
              Inr (map ticket_dict rs)
          \<and> set rs \<subseteq> set seeded_tickets
          \<and> (\<forall>t\<in>set rs. prioridad t = ''alta'' \<and> estado t = ''abierto'')
          \<and> sorted_wrt (\<lambda>a b. fecha_creacion b \<le> fecha_creacion a) rs)"
  using consultar_tickets_filtered_sorted
    [of seeded_world seeded_tickets "Some ''ALTA''" "Some ''Abierto''" 20]
  by (simp add: seeded_world_def lower_examples)

text \<open>
  C10. An empty string given as \<^verbatim>\<open>prioridad\<close> or \<^verbatim>\<open>estado\<close> is an absent filter:
  the filter step raises nothing and leaves the query as it was, and the whole call, result
  and effects, is the call with \<^verbatim>\<open>None\<close> in its place.
\<close>

theorem empty_filter_is_absent:
  "filtro_prioridad (Some []) q = Inr q
   \<and> filtro_estado (Some []) q = Inr q
   \<and> consultar_tickets (Some []) e limite w = consultar_tickets None e limite w
   \<and> consultar_tickets p (Some []) limite w = consultar_tickets p None limite w"
  unfolding consultar_tickets_def filtro_prioridad_empty filtro_prioridad_None
    filtro_estado_empty filtro_estado_None
  by simp

theorem empty_filter_is_absent_witness:
  "consultar_tickets (Some []) (Some []) 20 seeded_world =
     (Inr [ticket_dict ticket_2, ticket_dict ticket_1, ticket_dict ticket_3],
      seeded_world\<lparr>opened := 1, executed := [Select_tickets Always 20], closed := 1\<rparr>)"
  using empty_filter_is_absent [of Always "Some []" 20 seeded_world None]
    consultar_tickets_seeded_all
  by simp

text \<open>
  C5. When nothing exists at \<^verbatim>\<open>DB_PATH\<close>, each of the three operations raises
  \<^verbatim>\<open>FileNotFoundError\<close> with the message that names the path and tells the caller to
  run \<^verbatim>\<open>scripts/setup_db.py\<close> first; no connection is opened and no statement is
  executed (the world is returned as it was).
\<close>

theorem missing_store_raises_NotFound:
  assumes "db w = Absent"
  shows "consultar_tickets p e limite w = (Inl (not_found (DB_PATH w)), w)
    \<and> obtener_estadisticas g w = (Inl (not_found (DB_PATH w)), w)
    \<and> buscar_tickets_por_texto b campo limite w = (Inl (not_found (DB_PATH w)), w)
    \<and> not_found (DB_PATH w) =
        FileNotFoundError
          (''Base de datos no encontrada en '' @ DB_PATH w @ ''. Ejecuta '' @ [CHR 0x27] @
           ''poetry run python scripts/setup_db.py'' @ [CHR 0x27] @ '' primero.'')"
  using assms
  by (simp add: consultar_tickets_Absent obtener_estadisticas_Absent
      buscar_tickets_por_texto_Absent not_found_def apostrophe_def)

theorem missing_store_raises_NotFound_witness:
  "db missing_world = Absent
   \<and> consultar_tickets (Some ''alta'') None 20 missing_world =
       (Inl (not_found ''/srv/mcp/soporte.db''), missing_world)
   \<and> obtener_estadisticas ''estado'' missing_world =
       (Inl (not_found ''/srv/mcp/soporte.db''), missing_world)
   \<and> buscar_tickets_por_texto ''error'' ''asunto'' 20 missing_world =
       (Inl (not_found ''/srv/mcp/soporte.db''), missing_world)"
  using missing_store_raises_NotFound
    [of missing_world "Some ''alta''" None 20 "''estado''" "''error''" "''asunto''"]
  by (simp add: missing_world_def)

text \<open>
  C8. The claim asks that the connection be closed on every exit path, also when the
  storage layer raises. On a file that holds no table \<^verbatim>\<open>tickets\<close> the first
  \<^verbatim>\<open>cursor.execute\<close> of each operation raises \<^verbatim>\<open>sqlite3.OperationalError\<close>, and the
  operation is left with one connection opened and none closed. (The lemmas
  \<open>consultar_tickets_connections\<close>, \<open>obtener_estadisticas_connections\<close> and
  \<open>buscar_tickets_por_texto_connections\<close> show that this is the only path that leaves a
  connection open.)
\<close>

theorem connection_left_open_when_execute_raises:
  "consultar_tickets None None 20 empty_file_world =
     (Inl (OperationalError ''no such table: tickets''),
      empty_file_world\<lparr>opened := 1, executed := [Select_tickets Always 20]\<rparr>)
   \<and> obtener_estadisticas ''estado'' empty_file_world =
     (Inl (OperationalError ''no such table: tickets''),
      empty_file_world\<lparr>opened := 1, executed := [Select_count None]\<rparr>)
   \<and> buscar_tickets_por_texto ''error'' ''asunto'' 20 empty_file_world =
     (Inl (OperationalError ''no such table: tickets''),
      empty_file_world\<lparr>opened := 1,
        executed := [Select_tickets (Like ''asunto'' ''%error%'') 20]\<rparr>)
   \<and> closed (empty_file_world\<lparr>opened := 1, executed := [Select_count None]\<rparr>) = 0"
  by code_simp

text \<open>
  C2, as amended. When the store file exists, a non-empty \<^verbatim>\<open>prioridad\<close> or
  \<^verbatim>\<open>estado\<close> (the latter with a \<^verbatim>\<open>prioridad\<close> that passes), an \<^verbatim>\<open>agrupar_por\<close> or a
  \<^verbatim>\<open>campo\<close> whose lower-cased value is outside the allowed set makes the operation raise
  \<^verbatim>\<open>ValueError\<close> with a message that names the lower-cased value and the allowed
  values; the connection is opened and closed, no statement is executed and the store is
  unchanged.
\<close>

theorem invalid_value_raises_ValueError:
  assumes "db w \<noteq> Absent"
  shows
   "(s \<noteq> [] \<and> lower s \<notin> set [''baja'', ''media'', ''alta'', ''urgente''] \<longrightarrow>
      consultar_tickets (Some s) e limite w =
        (Inl (ValueError (''Prioridad inv'' @ [CHR 0xE1] @ ''lida: '' @ lower s @
                          ''. Usa: baja, media, alta, urgente'')),
         w\<lparr>opened := opened w + 1, closed := closed w + 1\<rparr>))
    \<and> ((\<forall>u. p = Some u \<longrightarrow> u = [] \<or> lower u \<in> set [''baja'', ''media'', ''alta'', ''urgente''])
       \<and> s \<noteq> [] \<and> lower s \<notin> set [''abierto'', ''cerrado''] \<longrightarrow>
      consultar_tickets p (Some s) limite w =
        (Inl (ValueError (''Estado inv'' @ [CHR 0xE1] @ ''lido: '' @ lower s @
                          ''. Usa: abierto, cerrado'')),
         w\<lparr>opened := opened w + 1, closed := closed w + 1\<rparr>))
    \<and> (lower g \<notin> set [''estado'', ''prioridad'', ''cliente''] \<longrightarrow>
      obtener_estadisticas g w =
        (Inl (ValueError (''Criterio inv'' @ [CHR 0xE1] @ ''lido: '' @ lower g @
                          ''. Usa: estado, prioridad, cliente'')),
         w\<lparr>opened := opened w + 1, closed := closed w + 1\<rparr>))
    \<and> (lower campo \<notin> set [''asunto'', ''descripcion'', ''ambos''] \<longrightarrow>
      buscar_tickets_por_texto b campo limite w =
        (Inl (ValueError (''Campo inv'' @ [CHR 0xE1] @ ''lido: '' @ lower campo @
                          ''. Usa: asunto, descripcion, ambos'')),
         w\<lparr>opened := opened w + 1, closed := closed w + 1\<rparr>))
    \<and> db (w\<lparr>opened := opened w + 1, closed := closed w + 1\<rparr>) = db w
    \<and> executed (w\<lparr>opened := opened w + 1, closed := closed w + 1\<rparr>) = executed w"
proof -
  have 1: "s \<noteq> [] \<and> lower s \<notin> set [''baja'', ''media'', ''alta'', ''urgente''] \<longrightarrow>
      consultar_tickets (Some s) e limite w =
        (Inl (ValueError (''Prioridad inv'' @ [CHR 0xE1] @ ''lida: '' @ lower s @
                          ''. Usa: baja, media, alta, urgente'')),
         w\<lparr>opened := opened w + 1, closed := closed w + 1\<rparr>)"
    using consultar_tickets_prioridad_invalid [OF assms, of s e limite] by simp
  have 2: "(\<forall>u. p = Some u \<longrightarrow> u = [] \<or> lower u \<in> set [''baja'', ''media'', ''alta'', ''urgente''])
       \<and> s \<noteq> [] \<and> lower s \<notin> set [''abierto'', ''cerrado''] \<longrightarrow>
      consultar_tickets p (Some s) limite w =
        (Inl (ValueError (''Estado inv'' @ [CHR 0xE1] @ ''lido: '' @ lower s @
                          ''. Usa: abierto, cerrado'')),
         w\<lparr>opened := opened w + 1, closed := closed w + 1\<rparr>)"
  proof
    assume h: "(\<forall>u. p = Some u \<longrightarrow> u = [] \<or> lower u \<in> set [''baja'', ''media'', ''alta'', ''urgente''])
       \<and> s \<noteq> [] \<and> lower s \<notin> set [''abierto'', ''cerrado'']"
    then obtain q1 where q1: "filtro_prioridad p Always = Inr q1"
      using filtro_prioridad_passes by blast
    from h have "s \<noteq> []" and "lower s \<notin> set [''abierto'', ''cerrado'']" by blast+
    from consultar_tickets_estado_invalid [OF assms q1 this, of limite]
    show "consultar_tickets p (Some s) limite w =
        (Inl (ValueError (''Estado inv'' @ [CHR 0xE1] @ ''lido: '' @ lower s @
                          ''. Usa: abierto, cerrado'')),
         w\<lparr>opened := opened w + 1, closed := closed w + 1\<rparr>)"
      by simp
  qed
  have 3: "lower g \<notin> set [''estado'', ''prioridad'', ''cliente''] \<longrightarrow>
      obtener_estadisticas g w =
        (Inl (ValueError (''Criterio inv'' @ [CHR 0xE1] @ ''lido: '' @ lower g @
                          ''. Usa: estado, prioridad, cliente'')),
         w\<lparr>opened := opened w + 1, closed := closed w + 1\<rparr>)"
    using obtener_estadisticas_invalid [OF assms, of g] by simp
  have 4: "lower campo \<notin> set [''asunto'', ''descripcion'', ''ambos''] \<longrightarrow>
      buscar_tickets_por_texto b campo limite w =
        (Inl (ValueError (''Campo inv'' @ [CHR 0xE1] @ ''lido: '' @ lower campo @
                          ''. Usa: asunto, descripcion, ambos'')),
         w\<lparr>opened := opened w + 1, closed := closed w + 1\<rparr>)"
    using buscar_tickets_por_texto_invalid [OF assms, of campo b limite] by simp
  from 1 2 3 4 show ?thesis by simp
qed

theorem invalid_value_raises_ValueError_witness:
  "db seeded_world \<noteq> Absent
   \<and> lower ''URGENTISIMO'' \<notin> set [''baja'', ''media'', ''alta'', ''urgente'']
   \<and> lower ''Fecha'' \<notin> set [''estado'', ''prioridad'', ''cliente'']
   \<and> consultar_tickets (Some ''URGENTISIMO'') None 20 seeded_world =
       (Inl (ValueError (''Prioridad inv'' @ [CHR 0xE1] @
                         ''lida: urgentisimo. Usa: baja, media, alta, urgente'')),
        seeded_world\<lparr>opened := 1, closed := 1\<rparr>)
   \<and> obtener_estadisticas ''Fecha'' seeded_world =
       (Inl (ValueError (''Criterio inv'' @ [CHR 0xE1] @
                         ''lido: fecha. Usa: estado, prioridad, cliente'')),
        seeded_world\<lparr>opened := 1, closed := 1\<rparr>)"
  using invalid_value_raises_ValueError
    [where w = seeded_world and s = "''URGENTISIMO''" and e = None and limite = 20
       and g = "''Fecha''"]
  by (simp add: seeded_world_def lower_examples)

text \<open>
  C2 as stated fails: the empty string is outside the allowed set, yet
  \<^verbatim>\<open>consultar_tickets\<close> takes it for an absent filter and runs the query; and when the store
  file is missing, an invalid value is never looked at, \<^verbatim>\<open>FileNotFoundError\<close> comes first.
\<close>

theorem invalid_value_raises_counterexample:
  "[] \<notin> set [''baja'', ''media'', ''alta'', ''urgente'']
   \<and> lower [] = []
   \<and> consultar_tickets (Some []) None 20 seeded_world =
       (Inr [ticket_dict ticket_2, ticket_dict ticket_1, ticket_dict ticket_3],
        seeded_world\<lparr>opened := 1, executed := [Select_tickets Always 20], closed := 1\<rparr>)
   \<and> lower ''Fecha'' \<notin> set [''estado'', ''prioridad'', ''cliente'']
   \<and> obtener_estadisticas ''Fecha'' missing_world =
       (Inl (not_found ''/srv/mcp/soporte.db''), missing_world)"
  by code_simp

text \<open>
  C3. On every seeded store and for every \<^verbatim>\<open>agrupar_por\<close> that lower-cases to
  \<^verbatim>\<open>estado\<close>, \<^verbatim>\<open>prioridad\<close> or \<^verbatim>\<open>cliente\<close>, the counts in the dictionary
  \<^verbatim>\<open>distribucion\<close> add up to \<^verbatim>\<open>total_tickets\<close> of the same result, which is the number
  of rows of the table.
\<close>

theorem distribucion_sums_to_total:
  assumes "db w = Table ts"
    and "lower g \<in> set [''estado'', ''prioridad'', ''cliente'']"
  shows "\<exists>st. fst (obtener_estadisticas g w) = Inr st
    \<and> sum_list (map snd (distribucion st)) = total_tickets st
    \<and> total_tickets st = int (length ts)"
  by (simp add: obtener_estadisticas_Table [OF assms] distribucion_rows
      sum_order_by_cantidad_desc sum_group_count)

theorem distribucion_sums_to_total_witness:
  "db seeded_world = Table seeded_tickets
   \<and> lower ''Cliente'' \<in> set [''estado'', ''prioridad'', ''cliente'']
   \<and> fst (obtener_estadisticas ''Cliente'' seeded_world) =
       Inr \<lparr>total_tickets = 3,
            distribucion = [(Some ''Innovatech'', 2), (Some ''TechCorp S.A.'', 1)],
            metricas_adicionales =
              \<lparr>tickets_abiertos = 2, tickets_urgentes = 1,
               top_5_clientes = [(Some ''Innovatech'', 2), (Some ''TechCorp S.A.'', 1)]\<rparr>\<rparr>
   \<and> sum_list (map snd [(Some ''Innovatech'', 2), (Some ''TechCorp S.A.'', 1::int)]) = 3"
  using distribucion_sums_to_total [of seeded_world seeded_tickets "''Cliente''"]
    obtener_estadisticas_seeded
  by (simp add: seeded_world_def lower_examples)











end
